theory Spec2Isabelle
  imports Complex_Main
begin

section \<open>Results and errors\<close>

text \<open>
  The Python exceptions that the module \<^verbatim>\<open>torchgeometry/homography_warper.py\<close> and the
  library calls it makes can raise. A computation returns \<open>Inl e\<close> where the Python raises
  \<open>e\<close>, and \<open>Inr v\<close> where it returns \<open>v\<close>.
\<close>

datatype error =
    RuntimeError string
  | TypeError string
  | ValueError string
  | IndexError string
  | AssertionError string
  | NameError string
  | ZeroDivisionError string

type_synonym 'a result = "error + 'a"

definition and_then :: "'a result \<Rightarrow> ('a \<Rightarrow> 'b result) \<Rightarrow> 'b result" where
  "and_then m f = (case m of Inl e \<Rightarrow> Inl e | Inr x \<Rightarrow> f x)"

section \<open>Tensors\<close>

text \<open>
  A tensor is its shape, its elements in row-major order and the device it lives on.
  Elements are real numbers: the rounding of 32-bit floats is not modelled, and a division
  by zero yields HOL's \<open>0\<close> where IEEE arithmetic yields an infinity or a NaN.
\<close>

datatype device = CPU | CUDA nat

record tensor =
  shape :: "nat list"
  elems :: "real list"
  dev :: device

definition digit_char :: "nat \<Rightarrow> char" where
  "digit_char d = ''0123456789'' ! d"

fun str_nat :: "nat \<Rightarrow> string" where
  "str_nat n = (if n < 10 then [digit_char n] else str_nat (n div 10) @ [digit_char (n mod 10)])"

text \<open>\<^verbatim>\<open>str(tensor.device)\<close>: \<^verbatim>\<open>cpu\<close>, \<^verbatim>\<open>cuda:0\<close>, ...\<close>

definition device_str :: "device \<Rightarrow> string" where
  "device_str d = (case d of CPU \<Rightarrow> ''cpu'' | CUDA n \<Rightarrow> ''cuda:'' @ str_nat n)"

fun join_str :: "string \<Rightarrow> string list \<Rightarrow> string" where
  "join_str sep [] = []"
| "join_str sep [x] = x"
| "join_str sep (x # y # zs) = x @ sep @ join_str sep (y # zs)"

text \<open>\<^verbatim>\<open>str(tensor.shape)\<close>, as in \<^verbatim>\<open>torch.Size([1, 3, 4, 4])\<close>.\<close>

definition size_str :: "nat list \<Rightarrow> string" where
  "size_str s = ''torch.Size(['' @ join_str '', '' (map str_nat s) @ ''])''"

text \<open>Row-major position of a multi-index, and the multi-index of a position.\<close>

fun ravel :: "nat list \<Rightarrow> nat list \<Rightarrow> nat" where
  "ravel (d # ds) (i # js) = i * prod_list ds + ravel ds js"
| "ravel _ _ = 0"

fun unravel :: "nat list \<Rightarrow> nat \<Rightarrow> nat list" where
  "unravel [] n = []"
| "unravel (d # ds) n = (n div prod_list ds) # unravel ds (n mod prod_list ds)"

definition tget :: "tensor \<Rightarrow> nat list \<Rightarrow> real" where
  "tget t idx = elems t ! ravel (shape t) idx"

fun position :: "'a \<Rightarrow> 'a list \<Rightarrow> nat" where
  "position x [] = 0"
| "position x (y # ys) = (if x = y then 0 else Suc (position x ys))"

subsection \<open>Library primitives of torch\<close>

text \<open>
  The module calls into the torch library, which is not part of the repository. Each
  primitive it uses is modelled here after torch's documented behaviour, on the tensor model
  above.
\<close>

text \<open>
  \<^verbatim>\<open>torch.linspace(start, end, steps)\<close>: \<open>steps\<close> points from \<open>start\<close> to \<open>end\<close> inclusive;
  a single point is \<open>start\<close>, no point is the empty tensor, a negative count is an error.
\<close>

definition linspace :: "real \<Rightarrow> real \<Rightarrow> int \<Rightarrow> tensor result" where
  "linspace start stop steps =
     (if steps < 0 then Inl (RuntimeError ''number of steps must be non-negative'')
      else let n = nat steps in
        Inr \<lparr>shape = [n],
             elems = (if n = 1 then [start]
                      else map (\<lambda>i. start + real i * ((stop - start) / real (n - 1))) [0..<n]),
             dev = CPU\<rparr>)"

text \<open>
  \<^verbatim>\<open>torch.meshgrid([a, b])\<close> on two one-dimensional tensors of lengths \<open>m\<close> and \<open>n\<close>: two
  \<open>m \<times> n\<close> tensors, the first repeating \<open>a\<close> along the columns (entry \<open>(i, j)\<close> is \<open>a[i]\<close>),
  the second repeating \<open>b\<close> along the rows (entry \<open>(i, j)\<close> is \<open>b[j]\<close>).
\<close>

definition meshgrid :: "tensor \<Rightarrow> tensor \<Rightarrow> (tensor list) result" where
  "meshgrid a b =
     (if length (shape a) = 1 \<and> length (shape b) = 1
      then let m = length (elems a); n = length (elems b) in
        Inr [\<lparr>shape = [m, n], elems = concat (map (replicate n) (elems a)), dev = dev a\<rparr>,
             \<lparr>shape = [m, n], elems = concat (replicate m (elems b)), dev = dev b\<rparr>]
      else Inl (RuntimeError ''Expected 1D tensor in the tensor list''))"

text \<open>\<^verbatim>\<open>torch.stack(ts)\<close> along a new leading dimension.\<close>

definition stack :: "tensor list \<Rightarrow> tensor result" where
  "stack ts =
     (case ts of
        [] \<Rightarrow> Inl (RuntimeError ''stack expects a non-empty TensorList'')
      | t # rest \<Rightarrow>
          if list_ex (\<lambda>u. shape u \<noteq> shape t) rest
          then Inl (RuntimeError ''stack expects each tensor to be equal size'')
          else Inr \<lparr>shape = length ts # shape t, elems = concat (map elems ts), dev = dev t\<rparr>)"

text \<open>
  \<^verbatim>\<open>t.view(*sz)\<close>: the same elements under a new shape; one entry of \<open>sz\<close> may be \<open>-1\<close> and
  is then inferred from the number of elements.
\<close>

definition view :: "tensor \<Rightarrow> int list \<Rightarrow> tensor result" where
  "view t sz =
     (let n = int (prod_list (shape t));
          known = prod_list (filter (\<lambda>d. d \<noteq> - 1) sz)
      in if list_ex (\<lambda>d. d < - 1) sz then Inl (RuntimeError ''invalid shape dimension'')
         else if 1 < length (filter (\<lambda>d. d = - 1) sz)
              then Inl (RuntimeError ''only one dimension can be inferred'')
         else if n = known \<or> (list_ex (\<lambda>d. d = - 1) sz \<and> 0 < known \<and> n mod known = 0)
              then (if list_ex (\<lambda>d. d = - 1) sz \<and> known = 0
                    then Inl (RuntimeError ''cannot reshape tensor of 0 elements'')
                    else Inr (t\<lparr>shape := map (\<lambda>d. if d = - 1 then nat (n div known)
                                                  else nat d) sz\<rparr>))
         else Inl (RuntimeError ''shape is invalid for input size''))"

text \<open>
  Indexing one dimension \<open>d\<close> with a sequence of positions, every other dimension taken
  whole: \<^verbatim>\<open>t[:, (1, 0), :]\<close> is \<open>index_along t 1 [1, 0]\<close>.
\<close>

definition index_along :: "tensor \<Rightarrow> nat \<Rightarrow> nat list \<Rightarrow> tensor result" where
  "index_along t d ixs =
     (if length (shape t) \<le> d then Inl (IndexError ''too many indices for tensor'')
      else if list_ex (\<lambda>i. shape t ! d \<le> i) ixs then Inl (IndexError ''index out of range'')
      else let s = (shape t)[d := length ixs] in
        Inr (t\<lparr>shape := s,
               elems := map (\<lambda>n. let idx = unravel s n
                                   in elems t ! ravel (shape t) (idx[d := ixs ! (idx ! d)]))
                            [0..<prod_list s]\<rparr>))"

text \<open>\<^verbatim>\<open>t.permute(*dims)\<close>: dimension \<open>k\<close> of the result is dimension \<open>dims[k]\<close> of \<open>t\<close>.\<close>

definition permute :: "tensor \<Rightarrow> nat list \<Rightarrow> tensor result" where
  "permute t dims =
     (if sort dims = [0..<length (shape t)]
      then let s = map (\<lambda>d. shape t ! d) dims in
        Inr (t\<lparr>shape := s,
               elems := map (\<lambda>n. let idx = unravel s n
                                   in elems t ! ravel (shape t)
                                        (map (\<lambda>d. idx ! position d dims) [0..<length dims]))
                            [0..<prod_list s]\<rparr>)
      else Inl (RuntimeError ''number of dims does not match in permute''))"

text \<open>
  The index into a tensor of shape \<open>src\<close> that a broadcast reads for the index \<open>idx\<close> of the
  larger result: shapes are aligned at their last dimension and a dimension of size one is
  read at position zero.
\<close>

definition bidx :: "nat list \<Rightarrow> nat list \<Rightarrow> nat list" where
  "bidx src idx = map (\<lambda>(d, i). if d = 1 then 0 else i) (zip src (drop (length idx - length src) idx))"

fun broadcast_rev :: "nat list \<Rightarrow> nat list \<Rightarrow> nat list option" where
  "broadcast_rev [] ys = Some ys"
| "broadcast_rev (x # xs) [] = Some (x # xs)"
| "broadcast_rev (x # xs) (y # ys) =
     (if x = y \<or> y = 1 then map_option ((#) x) (broadcast_rev xs ys)
      else if x = 1 then map_option ((#) y) (broadcast_rev xs ys)
      else None)"

definition broadcast_shapes :: "nat list \<Rightarrow> nat list \<Rightarrow> nat list option" where
  "broadcast_shapes a b = map_option rev (broadcast_rev (rev a) (rev b))"

text \<open>
  \<^verbatim>\<open>t.expand(*sz)\<close>: dimensions of size one are repeated up to the requested size, new
  leading dimensions may be added, \<open>-1\<close> keeps a dimension; no element is copied in torch,
  the result reads the elements of \<open>t\<close>.
\<close>

definition expand :: "tensor \<Rightarrow> int list \<Rightarrow> tensor result" where
  "expand t sz =
     (if length sz < length (shape t)
      then Inl (RuntimeError ''the number of sizes provided must be greater or equal to the number of dimensions in the tensor'')
      else let off = length sz - length (shape t);
               fresh = take off sz;
               old = zip (shape t) (drop off sz)
        in if list_ex (\<lambda>z. z < 0) fresh
           then Inl (RuntimeError ''expanded size -1 is not allowed in a leading, non-existing dimension'')
           else if list_ex (\<lambda>(d, z). z \<noteq> - 1 \<and> z \<noteq> int d \<and> (z < 0 \<or> d \<noteq> 1)) old
           then Inl (RuntimeError ''The expanded size of the tensor must match the existing size at non-singleton dimension'')
           else let tgt = map nat fresh @ map (\<lambda>(d, z). if z = - 1 then d else nat z) old in
             Inr (t\<lparr>shape := tgt,
                    elems := map (\<lambda>n. elems t ! ravel (shape t) (bidx (shape t) (unravel tgt n)))
                                 [0..<prod_list tgt]\<rparr>))"

text \<open>\<^verbatim>\<open>t.to(device)\<close> and \<^verbatim>\<open>t.cuda()\<close>: the same tensor on another device.\<close>

definition to_device :: "tensor \<Rightarrow> device \<Rightarrow> tensor" where
  "to_device t d = t\<lparr>dev := d\<rparr>"

definition cuda :: "tensor \<Rightarrow> tensor" where
  "cuda t = to_device t (CUDA 0)"

definition is_cuda :: "tensor \<Rightarrow> bool" where
  "is_cuda t = (case dev t of CPU \<Rightarrow> False | CUDA n \<Rightarrow> True)"

text \<open>\<^verbatim>\<open>torch.FloatTensor(seq)\<close>: a one-dimensional tensor of the given numbers.\<close>

definition FloatTensor :: "real list \<Rightarrow> tensor" where
  "FloatTensor xs = \<lparr>shape = [length xs], elems = xs, dev = CPU\<rparr>"

text \<open>An elementwise binary operation with broadcasting (\<^verbatim>\<open>a * b\<close>, \<^verbatim>\<open>a + b\<close>).\<close>

definition binop :: "(real \<Rightarrow> real \<Rightarrow> real) \<Rightarrow> tensor \<Rightarrow> tensor \<Rightarrow> tensor result" where
  "binop f a b =
     (if dev a \<noteq> dev b
      then Inl (RuntimeError ''Expected all tensors to be on the same device'')
      else case broadcast_shapes (shape a) (shape b) of
        None \<Rightarrow> Inl (RuntimeError ''The size of tensor a must match the size of tensor b'')
      | Some s \<Rightarrow>
          Inr \<lparr>shape = s,
               elems = map (\<lambda>n. f (elems a ! ravel (shape a) (bidx (shape a) (unravel s n)))
                                  (elems b ! ravel (shape b) (bidx (shape b) (unravel s n))))
                           [0..<prod_list s],
               dev = dev a\<rparr>)"

subsection \<open>The resampling primitive\<close>

text \<open>
  \<^verbatim>\<open>F.grid_sample(image, grid, mode, padding_mode)\<close> is torch's, too. The operations of
  the warper take it as a parameter of this type.
\<close>

type_synonym sampler = "tensor \<Rightarrow> tensor \<Rightarrow> string \<Rightarrow> string \<Rightarrow> tensor result"


text \<open>
  Modelled from the spec: a reference sampler with that interface (sections 4.3 and 6), to
  run the operations on concrete inputs. It interpolates bilinearly between the four pixels
  around the sampling position, where \<open>-1\<close> and \<open>1\<close> address the centres of the first and
  the last pixel; \<^verbatim>\<open>zeros\<close> reads \<open>0\<close> outside the image, \<^verbatim>\<open>border\<close> clamps the
  position to the image first.
\<close>

definition pixel :: "tensor \<Rightarrow> nat \<Rightarrow> nat \<Rightarrow> int \<Rightarrow> int \<Rightarrow> real" where
  "pixel img b c iy ix =
     (if 0 \<le> iy \<and> iy < int (shape img ! 2) \<and> 0 \<le> ix \<and> ix < int (shape img ! 3)
      then tget img [b, c, nat iy, nat ix] else 0)"

definition unnormalize :: "string \<Rightarrow> nat \<Rightarrow> real \<Rightarrow> real" where
  "unnormalize padding_mode n x =
     (let p = (x + 1) / 2 * (real n - 1)
      in if padding_mode = ''border'' then max 0 (min (real n - 1) p) else p)"

definition bilinear_at :: "tensor \<Rightarrow> string \<Rightarrow> nat \<Rightarrow> nat \<Rightarrow> real \<Rightarrow> real \<Rightarrow> real" where
  "bilinear_at img padding_mode b c x y =
     (let px = unnormalize padding_mode (shape img ! 3) x;
          py = unnormalize padding_mode (shape img ! 2) y;
          x0 = \<lfloor>px\<rfloor>; y0 = \<lfloor>py\<rfloor>;
          fx = px - of_int x0; fy = py - of_int y0
      in pixel img b c y0 x0 * (1 - fx) * (1 - fy)
       + pixel img b c y0 (x0 + 1) * fx * (1 - fy)
       + pixel img b c (y0 + 1) x0 * (1 - fx) * fy
       + pixel img b c (y0 + 1) (x0 + 1) * fx * fy)"

definition grid_sample_ref :: sampler where
  "grid_sample_ref img g mode padding_mode =
     (if mode \<noteq> ''bilinear'' then Inl (ValueError ''unsupported interpolation mode'')
      else if padding_mode \<noteq> ''zeros'' \<and> padding_mode \<noteq> ''border''
      then Inl (ValueError ''padding_mode must be zeros or border'')
      else if dev img \<noteq> dev g
      then Inl (RuntimeError ''Expected all tensors to be on the same device'')
      else if length (shape img) = 4 \<and> length (shape g) = 4
              \<and> shape g ! 0 = shape img ! 0 \<and> shape g ! 3 = 2
      then let s = [shape img ! 0, shape img ! 1, shape g ! 1, shape g ! 2] in
        Inr \<lparr>shape = s,
             elems = map (\<lambda>n. let idx = unravel s n
                               in bilinear_at img padding_mode (idx ! 0) (idx ! 1)
                                    (tget g [idx ! 0, idx ! 2, idx ! 3, 0])
                                    (tget g [idx ! 0, idx ! 2, idx ! 3, 1]))
                         [0..<prod_list s],
             dev = dev img\<rparr>
      else Inl (RuntimeError ''grid_sample expects a 4D input and a grid of shape (N, H, W, 2)''))"

section \<open>Point transform\<close>

text \<open>
  Modelled from the spec: \<^verbatim>\<open>transform_points\<close> is imported from the module
  \<^verbatim>\<open>torchgeometry/conversions.py\<close>, which is not among the sources. The specification
  (section 4.2) gives it as
  \<^verbatim>\<open>transform_points(H[..., 3, 3], points[..., N, 2]) -> [..., N, 2]\<close>:
  every point gets a trailing \<open>1\<close>, is multiplied by the transform with the leading
  dimensions of \<open>H\<close> broadcast against those of the points, and is divided by its last
  coordinate, which is then dropped. Operands of another shape are malformed and rejected
  (section 7).
\<close>

definition transform_points :: "tensor \<Rightarrow> tensor \<Rightarrow> tensor result" where
  "transform_points H pts =
     (let hs = shape H; ps = shape pts; hl = take (length hs - 2) hs; pl = take (length ps - 2) ps
      in if 2 \<le> length hs \<and> 2 \<le> length ps \<and> drop (length hs - 2) hs = [3, 3] \<and> last ps = 2
         then (case broadcast_shapes hl pl of
                 None \<Rightarrow> Inl (ValueError ''batch dimensions of transform and points do not match'')
               | Some lead \<Rightarrow>
                   let out = lead @ [ps ! (length ps - 2), 2] in
                     Inr \<lparr>shape = out,
                          elems = map (\<lambda>m.
                            let idx = unravel out m;
                                li = take (length lead) idx;
                                j = idx ! length lead;
                                c = idx ! Suc (length lead);
                                x = tget pts (bidx pl li @ [j, 0]);
                                y = tget pts (bidx pl li @ [j, 1]);
                                h = (\<lambda>r k. tget H (bidx hl li @ [r, k]))
                            in (h c 0 * x + h c 1 * y + h c 2) / (h 2 0 * x + h 2 1 * y + h 2 2))
                            [0..<prod_list out],
                          dev = dev H\<rparr>)
         else Inl (ValueError ''expected a transform of shape (..., 3, 3) and points of shape (..., N, 2)''))"

section \<open>The module \<^verbatim>\<open>homography_warper.py\<close>\<close>

text \<open>
  \<^verbatim>\<open>create_meshgrid(height, width, normalized_coordinates)\<close>, lines 14 to 27. The two
  arguments are Python integers.
\<close>

definition create_meshgrid :: "int \<Rightarrow> int \<Rightarrow> bool \<Rightarrow> tensor result" where
  "create_meshgrid h w normalized_coordinates =
     and_then (if normalized_coordinates then linspace (- 1) 1 w
               else linspace 0 (real_of_int (w - 1)) w) (\<lambda>xs.
     and_then (if normalized_coordinates then linspace (- 1) 1 h
               else linspace 0 (real_of_int (h - 1)) h) (\<lambda>ys.
     and_then (meshgrid ys xs) (\<lambda>m.
     and_then (stack m) (\<lambda>s.
     and_then (view s [1, 2, - 1]) (\<lambda>v.
       index_along v 1 [1, 0])))))"

text \<open>The class \<^verbatim>\<open>HomographyWarper\<close>: the fields that \<^verbatim>\<open>__init__\<close> sets.\<close>

record HomographyWarper =
  height :: int
  width :: int
  grid :: tensor

text \<open>
  \<^verbatim>\<open>HomographyWarper.__init__(self, height, width, points=None)\<close>, lines 46 to 58.
  \<^verbatim>\<open>points.size(k)\<close> raises an \<^verbatim>\<open>IndexError\<close> on a tensor of fewer than \<open>k + 1\<close>
  dimensions.
\<close>

definition HomographyWarper_init :: "int \<Rightarrow> int \<Rightarrow> tensor option \<Rightarrow> HomographyWarper result" where
  "HomographyWarper_init h w points =
     (case points of
        Some p \<Rightarrow>
          (case shape p of
             [] \<Rightarrow> Inl (IndexError ''dimension specified as 0 but tensor has no dimensions'')
           | d0 # ds \<Rightarrow>
               if d0 = 3
               then (case ds of
                       [] \<Rightarrow> Inl (IndexError ''Dimension out of range'')
                     | d1 # _ \<Rightarrow> Inr \<lparr>height = 1, width = int d1, grid = p\<rparr>)
               else Inl (AssertionError ''Points must be 3xN''))
      | None \<Rightarrow>
          and_then (create_meshgrid h w True) (\<lambda>g.
          and_then (permute g [0, 2, 1]) (\<lambda>g'.
            Inr \<lparr>height = h, width = w, grid = g'\<rparr>)))"

text \<open>
  \<^verbatim>\<open>HomographyWarper.warp_grid(self, H)\<close>, lines 60 to 72, with the object passed in and
  returned: the method assigns to no attribute of \<open>self\<close>, and \<^verbatim>\<open>expand\<close>, \<^verbatim>\<open>to\<close>,
  \<^verbatim>\<open>type_as\<close> and \<^verbatim>\<open>view\<close> return new tensor objects. \<^verbatim>\<open>type_as\<close> changes the element
  type only, which the tensor model does not have.
\<close>

definition warp_grid_st :: "HomographyWarper \<Rightarrow> tensor \<Rightarrow> tensor result \<times> HomographyWarper" where
  "warp_grid_st self H =
     (case shape H of
        [] \<Rightarrow> (Inl (IndexError ''tuple index out of range''), self)
      | batch_size # _ \<Rightarrow>
          (and_then (expand (grid self)
                       (int batch_size # map int (drop (length (shape (grid self)) - 2)
                                                   (shape (grid self))))) (\<lambda>g.
           and_then (transform_points H (to_device g (dev H))) (\<lambda>flow.
             view flow [int batch_size, height self, width self, 2])),
           self))"

definition warp_grid :: "HomographyWarper \<Rightarrow> tensor \<Rightarrow> tensor result" where
  "warp_grid self H = fst (warp_grid_st self H)"

text \<open>
  The names bound at module level: the imports of lines 1 to 5, \<^verbatim>\<open>__all__\<close> and the
  three definitions. A name that is neither local, nor bound here, nor a builtin raises a
  \<^verbatim>\<open>NameError\<close> when it is evaluated; none of the names looked up below is a builtin.
\<close>

definition module_globals :: "string list" where
  "module_globals = [''torch'', ''nn'', ''F'', ''transform_points'', ''__all__'',
     ''create_meshgrid'', ''HomographyWarper'', ''homography_warp'']"

definition lookup_global :: "string \<Rightarrow> unit result" where
  "lookup_global name =
     (if name \<in> set module_globals then Inr ()
      else Inl (NameError (''name '' @ [CHR 0x27] @ name @ [CHR 0x27] @ '' is not defined'')))"

text \<open>
  Lines 83 to 96 of \<^verbatim>\<open>crop_and_warp\<close>: the inclusive pixel bounds of the region of
  interest, normalised by \<open>2 * coord / dimension - 1\<close> (Python 3: \<^verbatim>\<open>/\<close> is true division and
  raises \<^verbatim>\<open>ZeroDivisionError\<close> on a zero dimension), then the midpoints \<open>b\<close> and the
  half-widths \<open>a\<close>. The result is \<open>((a_x, a_y), (b_x, b_y))\<close>.
\<close>

definition roi_affine :: "int \<times> int \<times> int \<times> int \<Rightarrow> nat \<Rightarrow> nat \<Rightarrow> ((real \<times> real) \<times> (real \<times> real)) result" where
  "roi_affine roi w h =
     (case roi of (roi0, roi1, roi2, roi3) \<Rightarrow>
        let start_x = roi2; end_x = roi3 - 1;
            start_y = roi0; end_y = roi1 - 1
        in if w = 0 \<or> h = 0 then Inl (ZeroDivisionError ''division by zero'')
           else let start_x = real_of_int (2 * start_x) / real w - 1;
                    end_x = real_of_int (2 * end_x) / real w - 1;
                    start_y = real_of_int (2 * start_y) / real h - 1;
                    end_y = real_of_int (2 * end_y) / real h - 1;
                    b_x = (start_x + end_x) / 2;
                    a_x = b_x - start_x;
                    b_y = (start_y + end_y) / 2;
                    a_y = b_y - start_y
                in Inr ((a_x, a_y), (b_x, b_y)))"

text \<open>
  \<^verbatim>\<open>HomographyWarper.crop_and_warp(self, H, image, roi, padding_mode)\<close>, lines 77 to 104.
  Line 97 evaluates the name \<^verbatim>\<open>Variable\<close>.
\<close>

definition crop_and_warp ::
  "sampler \<Rightarrow> HomographyWarper \<Rightarrow> tensor \<Rightarrow> tensor \<Rightarrow> int \<times> int \<times> int \<times> int \<Rightarrow> string \<Rightarrow> tensor result" where
  "crop_and_warp gs self H img roi padding_mode =
     and_then (warp_grid self H) (\<lambda>g.
       if length (shape img) = 4
       then and_then (roi_affine roi (shape img ! 3) (shape img ! 2)) (\<lambda>((a_x, a_y), (b_x, b_y)).
            and_then (lookup_global ''Variable'') (\<lambda>_.
              let a = FloatTensor [a_x, a_y];
                  b = FloatTensor [b_x, b_y];
                  a = (if is_cuda g then cuda a else a);
                  b = (if is_cuda g then cuda b else b)
              in and_then (binop (*) g a) (\<lambda>ga.
                 and_then (binop (+) ga b) (\<lambda>g'.
                   gs img g' ''bilinear'' padding_mode))))
       else Inl (AssertionError (size_str (shape img))))"

text \<open>
  \<^verbatim>\<open>HomographyWarper.forward(self, patch, dst_homo_src, padding_mode)\<close>, lines 106 to 135.
  The message of the \<^verbatim>\<open>TypeError\<close> is one string literal continued over two source lines:
  the 28 blanks that indent its second line are part of it.
\<close>

definition device_mismatch_message :: "device \<Rightarrow> device \<Rightarrow> string" where
  "device_mismatch_message patch_device homo_device =
     ''Patch and homography must be on the same device. '' @ replicate 28 (CHR '' '')
       @ ''Got patch.device: '' @ device_str patch_device
       @ '' dst_H_src.device: '' @ device_str homo_device @ ''.''"

definition forward :: "sampler \<Rightarrow> HomographyWarper \<Rightarrow> tensor \<Rightarrow> tensor \<Rightarrow> string \<Rightarrow> tensor result" where
  "forward gs self patch dst_homo_src padding_mode =
     (if \<not> dev dst_homo_src = dev patch
      then Inl (TypeError (device_mismatch_message (dev patch) (dev dst_homo_src)))
      else and_then (warp_grid self dst_homo_src) (\<lambda>g.
             gs patch g ''bilinear'' padding_mode))"

text \<open>
  \<^verbatim>\<open>homography_warp(patch, dst_H_src, dsize, points, padding_mode)\<close>, lines 140 to 172.
  Calling the warper object runs its \<^verbatim>\<open>forward\<close>: the class registers no hook.
\<close>

definition homography_warp ::
  "sampler \<Rightarrow> tensor \<Rightarrow> tensor \<Rightarrow> int \<times> int \<Rightarrow> tensor option \<Rightarrow> string \<Rightarrow> tensor result" where
  "homography_warp gs patch dst_H_src dsize points padding_mode =
     (case dsize of (h, w) \<Rightarrow>
        (case HomographyWarper_init h w points of
           Inl e \<Rightarrow> Inl e
         | Inr warper \<Rightarrow> forward gs warper patch dst_H_src padding_mode))"

section \<open>Notions of the specification\<close>

text \<open>
  The \<open>i\<close>-th of \<open>n\<close> values linearly spaced from \<open>-1\<close> to \<open>1\<close> inclusive; the single
  sample of \<open>n = 1\<close> is \<open>-1\<close>.
\<close>

definition linear_sample :: "nat \<Rightarrow> nat \<Rightarrow> real" where
  "linear_sample n i = (if n = 1 then - 1 else - 1 + 2 * real i / real (n - 1))"

text \<open>
  The functional entry point in the specification's words: construct a warper for
  \<open>(height, width) = dsize\<close> (or the explicit points), then call its forward.
\<close>

definition homography_warp_spec ::
  "sampler \<Rightarrow> tensor \<Rightarrow> tensor \<Rightarrow> int \<times> int \<Rightarrow> tensor option \<Rightarrow> string \<Rightarrow> tensor result" where
  "homography_warp_spec gs patch H dsize points padding_mode =
     and_then (HomographyWarper_init (fst dsize) (snd dsize) points)
       (\<lambda>warper. forward gs warper patch H padding_mode)"

text \<open>A batch of \<open>n\<close> identity homographies, and a constant image, for concrete runs.\<close>

definition eye_batch :: "nat \<Rightarrow> device \<Rightarrow> tensor" where
  "eye_batch n d = \<lparr>shape = [n, 3, 3], elems = concat (replicate n [1, 0, 0, 0, 1, 0, 0, 0, 1]), dev = d\<rparr>"

definition full_tensor :: "nat list \<Rightarrow> real \<Rightarrow> device \<Rightarrow> tensor" where
  "full_tensor s v d = \<lparr>shape = s, elems = replicate (prod_list s) v, dev = d\<rparr>"

section \<open>Indexing lemmas\<close>

lemma nth_concat_replicate:
  "x < length xs \<Longrightarrow> y < m \<Longrightarrow> concat (replicate m xs) ! (y * length xs + x) = xs ! x"
proof (induction m arbitrary: y)
  case 0
  then show ?case by simp
next
  case (Suc m)
  show ?case
  proof (cases y)
    case 0
    with Suc.prems show ?thesis by (simp add: nth_append)
  next
    case (Suc y')
    with Suc.prems Suc.IH [of y'] show ?thesis by (simp add: nth_append)
  qed
qed

lemma nth_concat_map_replicate:
  "x < n \<Longrightarrow> y < length ys \<Longrightarrow> concat (map (replicate n) ys) ! (y * n + x) = ys ! y"
proof (induction ys arbitrary: y)
  case Nil
  then show ?case by simp
next
  case (Cons a ys)
  show ?case
  proof (cases y)
    case 0
    with Cons.prems show ?thesis by (simp add: nth_append)
  next
    case (Suc y')
    with Cons.prems Cons.IH [of y'] show ?thesis by (simp add: nth_append)
  qed
qed

lemma length_concat_replicate: "length (concat (replicate m xs)) = m * length xs"
  by (induction m) simp_all

lemma length_concat_map_replicate: "length (concat (map (replicate n) ys)) = length ys * n"
  by (induction ys) simp_all

section \<open>The coordinate grid\<close>

lemma linspace_nat:
  "linspace a b (int n) = Inr \<lparr>shape = [n],
      elems = (if n = 1 then [a] else map (\<lambda>i. a + real i * ((b - a) / real (n - 1))) [0..<n]),
      dev = CPU\<rparr>"
  by (simp add: linspace_def)

lemma linspace_negative:
  "steps < 0 \<Longrightarrow> linspace a b steps = Inl (RuntimeError ''number of steps must be non-negative'')"
  by (simp add: linspace_def)

lemma view_1_2_infer:
  "prod_list (shape t) = 2 * N \<Longrightarrow> view t [1, 2, - 1] = Inr (t\<lparr>shape := [1, 2, N]\<rparr>)"
  by (simp add: view_def Let_def)

text \<open>Swapping the two rows of a \<open>1 \<times> 2 \<times> N\<close> tensor swaps the two halves of its elements.\<close>

lemma index_along_swap:
  assumes "shape t = [1, 2, N]" "elems t = ys @ xs" "length ys = N" "length xs = N"
  shows "index_along t 1 [1, 0] = Inr \<lparr>shape = [1, 2, N], elems = xs @ ys, dev = dev t\<rparr>"
proof -
  have E: "map (\<lambda>n. let idx = unravel [1, 2, N] n
                 in (ys @ xs) ! ravel [1, 2, N] (idx[1 := [1, 0] ! (idx ! 1)])) [0..<2 * N]
        = xs @ ys" (is "?l = ?r")
  proof (rule nth_equalityI)
    show "length ?l = length ?r" using assms by simp
  next
    fix n assume "n < length ?l"
    then have n: "n < 2 * N" by simp
    show "?l ! n = ?r ! n"
    proof (cases "n < N")
      case True
      then have "n div N = 0" "n mod N = n" by simp_all
      with n True assms show ?thesis
        by (simp add: nth_append Let_def)
    next
      case False
      with n have "n div N = 1" "n mod N = n - N"
        by (simp_all add: div_nat_eqI le_mod_geq)
      moreover from n False have "n - N < N" by arith
      ultimately show ?thesis using n False assms
        by (simp add: nth_append Let_def)
    qed
  qed
  have c1: "\<not> length (shape t) \<le> 1" using assms by simp
  have c2: "\<not> list_ex (\<lambda>i. shape t ! 1 \<le> i) [1, 0]" using assms by simp
  have s: "(shape t)[1 := length [1::nat, 0]] = [1, 2, N]" using assms by simp
  have p: "prod_list [1, 2, N] = 2 * N" by simp
  have "index_along t 1 [1, 0] = Inr (t\<lparr>shape := [1, 2, N], elems := xs @ ys\<rparr>)"
    unfolding index_along_def s Let_def p using c1 c2 E [unfolded Let_def] assms(1,2)
    by (simp only: if_False)
  then show ?thesis by simp
qed

text \<open>
  The grid in closed form, for non-negative sizes: the \<open>x\<close> coordinates of all positions in
  row-major order, then the \<open>y\<close> coordinates.
\<close>

lemma create_meshgrid_closed:
  fixes h w :: nat and nc :: bool
  defines "xs \<equiv> (if nc then (if w = 1 then [- 1] else map (\<lambda>i. - 1 + real i * ((1 - (- 1)) / real (w - 1))) [0..<w])
                  else (if w = 1 then [0] else map (\<lambda>i. 0 + real i * ((real_of_int (int w - 1) - 0) / real (w - 1))) [0..<w]))"
      and "ys \<equiv> (if nc then (if h = 1 then [- 1] else map (\<lambda>i. - 1 + real i * ((1 - (- 1)) / real (h - 1))) [0..<h])
                  else (if h = 1 then [0] else map (\<lambda>i. 0 + real i * ((real_of_int (int h - 1) - 0) / real (h - 1))) [0..<h]))"
  shows "create_meshgrid (int h) (int w) nc =
     Inr \<lparr>shape = [1, 2, h * w],
          elems = concat (replicate h xs) @ concat (map (replicate w) ys),
          dev = CPU\<rparr>"
proof -
  have lx: "length xs = w" and ly: "length ys = h" by (simp_all add: xs_def ys_def)
  have X: "(if nc then linspace (- 1) 1 (int w) else linspace 0 (real_of_int (int w - 1)) (int w))
           = Inr \<lparr>shape = [w], elems = xs, dev = CPU\<rparr>"
    by (simp add: linspace_nat xs_def)
  have Y: "(if nc then linspace (- 1) 1 (int h) else linspace 0 (real_of_int (int h - 1)) (int h))
           = Inr \<lparr>shape = [h], elems = ys, dev = CPU\<rparr>"
    by (simp add: linspace_nat ys_def)
  define S where "S = \<lparr>shape = [2, h, w],
      elems = concat (map (replicate w) ys) @ concat (replicate h xs), dev = CPU\<rparr>"
  define V where "V = \<lparr>shape = [1, 2, h * w],
      elems = concat (map (replicate w) ys) @ concat (replicate h xs), dev = CPU\<rparr>"
  have M: "and_then (meshgrid \<lparr>shape = [h], elems = ys, dev = CPU\<rparr>
                              \<lparr>shape = [w], elems = xs, dev = CPU\<rparr>) stack = Inr S"
    by (simp add: meshgrid_def stack_def and_then_def lx ly S_def)
  have "view S [1, 2, - 1] = Inr (S\<lparr>shape := [1, 2, h * w]\<rparr>)"
    by (rule view_1_2_infer) (simp add: S_def)
  then have V: "view S [1, 2, - 1] = Inr V" by (simp add: S_def V_def)
  have I: "index_along V 1 [1, 0]
           = Inr \<lparr>shape = [1, 2, h * w],
                  elems = concat (replicate h xs) @ concat (map (replicate w) ys), dev = dev V\<rparr>"
    by (rule index_along_swap)
       (simp_all add: V_def length_concat_replicate length_concat_map_replicate lx ly)
  have "create_meshgrid (int h) (int w) nc =
        and_then (and_then (meshgrid \<lparr>shape = [h], elems = ys, dev = CPU\<rparr>
                                     \<lparr>shape = [w], elems = xs, dev = CPU\<rparr>) stack)
          (\<lambda>s. and_then (view s [1, 2, - 1]) (\<lambda>v. index_along v 1 [1, 0]))"
    unfolding create_meshgrid_def X Y by (simp add: and_then_def split: sum.splits)
  also have "\<dots> = Inr \<lparr>shape = [1, 2, h * w],
         elems = concat (replicate h xs) @ concat (map (replicate w) ys), dev = dev V\<rparr>"
    unfolding M by (simp only: and_then_def V I sum.case)
  finally show ?thesis by (simp add: V_def)
qed

lemma create_meshgrid_negative:
  "h < 0 \<or> w < 0 \<Longrightarrow>
   create_meshgrid h w nc = Inl (RuntimeError ''number of steps must be non-negative'')"
  by (cases "w < 0") (auto simp: create_meshgrid_def and_then_def linspace_def Let_def)

lemma normalized_samples:
  "(if n = 1 then [- 1] else map (\<lambda>i. - 1 + real i * ((1 - (- 1)) / real (n - 1))) [0..<n])
     = map (linear_sample n) [0..<n]"
  by (auto simp: linear_sample_def)

text \<open>
  C1. For every height and width of at least one, the normalised grid of
  \<open>create_meshgrid\<close> holds, for the destination position \<open>(y, x)\<close>, the horizontal coordinate
  in row \<open>0\<close> and the vertical one in row \<open>1\<close> of column \<open>y * W + x\<close>: the pair is in
  \<open>(x, y)\<close> order although the mesh was built with \<open>y\<close> outermost. The horizontal coordinate
  is the \<open>x\<close>-th of \<open>W\<close> values linearly spaced from \<open>-1\<close> to \<open>1\<close>, the vertical one the
  \<open>y\<close>-th of \<open>H\<close> such values, and a single sample is \<open>-1\<close>.
\<close>

theorem create_meshgrid_normalized:
  assumes "1 \<le> h" "1 \<le> w"
  shows "\<exists>t. create_meshgrid (int h) (int w) True = Inr t
           \<and> t = \<lparr>shape = [1, 2, h * w],
                  elems = concat (replicate h (map (linear_sample w) [0..<w]))
                          @ concat (map (replicate w) (map (linear_sample h) [0..<h])),
                  dev = CPU\<rparr>
           \<and> (\<forall>y<h. \<forall>x<w. tget t [0, 0, y * w + x] = linear_sample w x
                            \<and> tget t [0, 1, y * w + x] = linear_sample h y)
           \<and> linear_sample 1 0 = - 1"
proof -
  let ?xs = "map (linear_sample w) [0..<w]" and ?ys = "map (linear_sample h) [0..<h]"
  let ?t = "\<lparr>shape = [1, 2, h * w],
             elems = concat (replicate h ?xs) @ concat (map (replicate w) ?ys), dev = CPU\<rparr>"
  have eq: "create_meshgrid (int h) (int w) True = Inr ?t"
    using create_meshgrid_closed [of h w True] by (simp only: normalized_samples if_True)
  have pt: "tget ?t [0, 0, y * w + x] = linear_sample w x
          \<and> tget ?t [0, 1, y * w + x] = linear_sample h y" if "y < h" "x < w" for y x
  proof -
    have lt: "y * w + x < h * w"
    proof -
      have "y * w + x < y * w + w" using that by simp
      also have "\<dots> = Suc y * w" by simp
      also have "\<dots> \<le> h * w" using that by (intro mult_le_mono1) simp
      finally show ?thesis .
    qed
    have a: "concat (replicate h ?xs) ! (y * w + x) = linear_sample w x"
      using nth_concat_replicate [of x ?xs y h] that by simp
    have b: "concat (map (replicate w) ?ys) ! (y * w + x) = linear_sample h y"
      using nth_concat_map_replicate [of x w y ?ys] that by simp
    show ?thesis
      using lt a b
      by (simp add: tget_def nth_append length_concat_replicate length_concat_map_replicate)
  qed
  show ?thesis
    using eq pt by (simp add: linear_sample_def)
qed

theorem create_meshgrid_normalized_witness:
  "(1::nat) \<le> 2 \<and> (1::nat) \<le> 3
   \<and> create_meshgrid 2 3 True
       = Inr \<lparr>shape = [1, 2, 6], elems = [- 1, 0, 1, - 1, 0, 1, - 1, - 1, - 1, 1, 1, 1], dev = CPU\<rparr>
   \<and> create_meshgrid 1 1 True = Inr \<lparr>shape = [1, 2, 1], elems = [- 1, - 1], dev = CPU\<rparr>"
proof -
  have a: "concat (replicate 2 (map (linear_sample 3) [0..<3]))
             @ concat (map (replicate 3) (map (linear_sample 2) [0..<2]))
           = [- 1, 0, 1, - 1, 0, 1, - 1, - 1, - 1, 1, 1, 1]"
    by (simp add: linear_sample_def numeral_2_eq_2 numeral_3_eq_3 upt_rec)
  have b: "concat (replicate 1 (map (linear_sample 1) [0..<1]))
             @ concat (map (replicate 1) (map (linear_sample 1) [0..<1])) = [- 1, - 1]"
    by (simp add: linear_sample_def)
  from create_meshgrid_normalized [of 2 3]
  have "create_meshgrid 2 3 True
       = Inr \<lparr>shape = [1, 2, 6], elems = [- 1, 0, 1, - 1, 0, 1, - 1, - 1, - 1, 1, 1, 1], dev = CPU\<rparr>"
    unfolding a by simp
  moreover from create_meshgrid_normalized [of 1 1]
  have "create_meshgrid 1 1 True = Inr \<lparr>shape = [1, 2, 1], elems = [- 1, - 1], dev = CPU\<rparr>"
    unfolding b by simp
  ultimately show ?thesis by simp
qed

text \<open>Sizes that are not positive: a negative one is rejected by \<open>linspace\<close>, a zero one
  gives an empty grid.\<close>

lemma create_meshgrid_empty:
  assumes "0 \<le> h" "0 \<le> w" "h = 0 \<or> w = 0"
  shows "create_meshgrid h w nc = Inr \<lparr>shape = [1, 2, 0], elems = [], dev = CPU\<rparr>"
proof -
  from assms have "nat h * nat w = 0" by auto
  moreover from assms have "nat h = 0 \<or> nat w = 0" by auto
  ultimately show ?thesis
    using create_meshgrid_closed [of "nat h" "nat w" nc] assms(1,2) by auto
qed

text \<open>
  C8, as claimed: every call with a height or a width that is not positive fails and
  produces no grid. \<open>create_meshgrid\<close> checks neither argument itself, and with a height of
  zero every step succeeds on empty tensors: the call returns an empty grid.
\<close>

theorem create_meshgrid_zero_counterexample:
  "create_meshgrid 0 3 True = Inr \<lparr>shape = [1, 2, 0], elems = [], dev = CPU\<rparr>"
  using create_meshgrid_closed [of 0 3 True] by simp

text \<open>
  C8, amended: with a negative height or width \<open>create_meshgrid\<close> fails, with the
  \<^verbatim>\<open>RuntimeError\<close> that \<open>linspace\<close> raises for a negative number of steps, and produces
  no grid; with a height or width of zero and the other one not negative it returns the
  empty grid of shape \<open>(1, 2, 0)\<close>.
\<close>

theorem create_meshgrid_nonpositive:
  "(h < 0 \<or> w < 0 \<longrightarrow>
      create_meshgrid h w nc = Inl (RuntimeError ''number of steps must be non-negative''))
   \<and> (0 \<le> h \<and> 0 \<le> w \<and> (h = 0 \<or> w = 0) \<longrightarrow>
      create_meshgrid h w nc = Inr \<lparr>shape = [1, 2, 0], elems = [], dev = CPU\<rparr>)"
  using create_meshgrid_negative [of h w nc] create_meshgrid_empty [of h w nc] by blast

theorem create_meshgrid_nonpositive_witness:
  "create_meshgrid (- 1) 3 True = Inl (RuntimeError ''number of steps must be non-negative'')
   \<and> create_meshgrid 4 0 True = Inr \<lparr>shape = [1, 2, 0], elems = [], dev = CPU\<rparr>"
  using create_meshgrid_nonpositive [of "- 1" 3 True] create_meshgrid_nonpositive [of 4 0 True]
  by simp

section \<open>Shapes through the warper\<close>

lemma permute_0_2_1:
  assumes "shape t = [a, b, c]"
  shows "\<exists>t'. permute t [0, 2, 1] = Inr t' \<and> shape t' = [a, c, b] \<and> dev t' = dev t"
proof -
  have "sort [0::nat, 2, 1] = [0..<length [a, b, c]]" by (simp add: upt_rec numeral_3_eq_3)
  with assms show ?thesis by (simp add: permute_def Let_def del: upt_Suc)
qed

lemma expand_batch:
  assumes "shape t = [1, n, 2]"
  shows "\<exists>g. expand t [int B, int n, 2] = Inr g \<and> shape g = [B, n, 2] \<and> dev g = dev t"
  using assms by (simp add: expand_def Let_def)

lemma transform_points_shape:
  assumes "shape H = [B, 3, 3]" "shape p = [B, n, 2]"
  shows "\<exists>f. transform_points H p = Inr f \<and> shape f = [B, n, 2] \<and> dev f = dev H"
  using assms by (simp add: transform_points_def Let_def broadcast_shapes_def)

lemma view_batch:
  assumes "shape t = [B, h * w, 2]"
  shows "view t [int B, int h, int w, 2] = Inr (t\<lparr>shape := [B, h, w, 2]\<rparr>)"
  using assms by (simp add: view_def Let_def)

lemma init_full_image:
  "\<exists>self. HomographyWarper_init (int h) (int w) None = Inr self
     \<and> height self = int h \<and> width self = int w \<and> shape (grid self) = [1, h * w, 2]"
proof -
  obtain t where t: "create_meshgrid (int h) (int w) True = Inr t" "shape t = [1, 2, h * w]"
    using create_meshgrid_closed [of h w True] by simp
  from permute_0_2_1 [OF t(2)] obtain t' where
    t': "permute t [0, 2, 1] = Inr t'" "shape t' = [1, h * w, 2]" by blast
  have "HomographyWarper_init (int h) (int w) None
          = Inr \<lparr>height = int h, width = int w, grid = t'\<rparr>"
    by (simp only: HomographyWarper_init_def and_then_def option.case t(1) sum.case t'(1))
  then show ?thesis using t'(2) by simp
qed

lemma warp_grid_full_image:
  assumes "shape (grid self) = [1, h * w, 2]" "height self = int h" "width self = int w"
      and "shape H = [B, 3, 3]"
  shows "\<exists>g. warp_grid self H = Inr g \<and> shape g = [B, h, w, 2] \<and> dev g = dev H"
proof -
  from expand_batch [OF assms(1), of B] obtain g where
    g: "expand (grid self) [int B, int (h * w), 2] = Inr g" "shape g = [B, h * w, 2]" by blast
  have "shape (to_device g (dev H)) = [B, h * w, 2]" using g by (simp add: to_device_def)
  from transform_points_shape [OF assms(4) this] obtain f where
    f: "transform_points H (to_device g (dev H)) = Inr f" "shape f = [B, h * w, 2]" "dev f = dev H"
    by blast
  have v: "view f [int B, int h, int w, 2] = Inr (f\<lparr>shape := [B, h, w, 2]\<rparr>)"
    by (rule view_batch) (rule f(2))
  have "warp_grid self H = Inr (f\<lparr>shape := [B, h, w, 2]\<rparr>)"
    using assms g f v by (simp add: warp_grid_def warp_grid_st_def and_then_def)
  then show ?thesis using f by simp
qed

lemma warp_grid_points_fails:
  assumes "shape p = [3, N]" "shape H = [B, 3, 3]" "0 < B"
  shows "\<exists>e. warp_grid \<lparr>height = 1, width = int N, grid = p\<rparr> H = Inl e"
proof -
  have e: "\<exists>g. expand p [int B, 3, int N] = Inr g \<and> shape g = [B, 3, N]"
    using assms by (simp add: expand_def Let_def)
  then obtain g where g: "expand p [int B, 3, int N] = Inr g" "shape g = [B, 3, N]" by blast
  show ?thesis
  proof (cases "N = 2")
    case True
    have "shape (to_device g (dev H)) = [B, 3, 2]" using g True by (simp add: to_device_def)
    from transform_points_shape [OF assms(2) this] obtain f where
      f: "transform_points H (to_device g (dev H)) = Inr f" "shape f = [B, 3, 2]" by blast
    have "\<exists>e. view f [int B, 1, 2, 2] = Inl e"
      using f(2) assms(3) by (simp add: view_def Let_def)
    then show ?thesis
      using assms g f True by (simp add: warp_grid_def warp_grid_st_def and_then_def)
  next
    case False
    have "\<exists>e. transform_points H (to_device g (dev H)) = Inl e"
      using g False assms by (simp add: transform_points_def Let_def to_device_def)
    then show ?thesis
      using assms g by (auto simp add: warp_grid_def warp_grid_st_def and_then_def)
  qed
qed








lemma warp_grid_shape_full_image:
  assumes "shape H = [B, 3, 3]"
  shows "\<exists>self g. HomographyWarper_init (int h) (int w) None = Inr self
           \<and> warp_grid self H = Inr g
           \<and> shape g = [B, nat (height self), nat (width self), 2]"
proof -
  from init_full_image [of h w] obtain self where
    self: "HomographyWarper_init (int h) (int w) None = Inr self"
      "height self = int h" "width self = int w" "shape (grid self) = [1, h * w, 2]" by blast
  from warp_grid_full_image [OF self(4) self(2) self(3) assms] self show ?thesis by auto
qed

section \<open>The warper\<close>

text \<open>
  C2. Claimed: for a warper constructed in either mode and a homography batch of shape
  \<open>(batch, 3, 3)\<close> of positive batch size, \<open>warp_grid\<close> returns an array of shape
  \<open>(batch, height, width, 2)\<close>. In full-image mode it does (\<open>warp_grid_shape_full_image\<close>).
  In explicit-points mode the constructor keeps the \<open>3 \<times> N\<close> point set as the grid, where
  the full-image mode stores a grid of shape \<open>(1, H * W, 2)\<close>; \<open>warp_grid\<close> expands it to
  \<open>(batch, 3, N)\<close>, and the point transform or the final \<open>view\<close> rejects it. So for every
  \<open>3 \<times> N\<close> point set and every positive batch size the construction succeeds, with
  height \<open>1\<close> and width \<open>N\<close>, and \<open>warp_grid\<close> raises an error instead of returning.
\<close>

theorem warp_grid_explicit_points_fails:
  assumes "shape points = [3, N]" "shape H = [B, 3, 3]" "0 < B"
  shows "\<exists>self e. HomographyWarper_init h w (Some points) = Inr self
           \<and> height self = 1 \<and> width self = int N
           \<and> warp_grid self H = Inl e"
proof -
  have "HomographyWarper_init h w (Some points) = Inr \<lparr>height = 1, width = int N, grid = points\<rparr>"
    using assms(1) by (simp add: HomographyWarper_init_def)
  with warp_grid_points_fails [OF assms] show ?thesis by auto
qed

theorem warp_grid_explicit_points_fails_witness:
  "shape (full_tensor [3, 2] 1 CPU) = [3, 2] \<and> shape (eye_batch 1 CPU) = [1, 3, 3] \<and> (0::nat) < 1
   \<and> (\<exists>self e. HomographyWarper_init 1 2 (Some (full_tensor [3, 2] 1 CPU)) = Inr self
           \<and> height self = 1 \<and> width self = 2
           \<and> warp_grid self (eye_batch 1 CPU) = Inl e)
   \<and> and_then (HomographyWarper_init 1 2 (Some (full_tensor [3, 2] 1 CPU)))
         (\<lambda>self. warp_grid self (eye_batch 1 CPU))
       = Inl (RuntimeError ''shape is invalid for input size'')"
proof -
  have "and_then (HomographyWarper_init 1 2 (Some (full_tensor [3, 2] 1 CPU)))
         (\<lambda>self. warp_grid self (eye_batch 1 CPU))
       = Inl (RuntimeError ''shape is invalid for input size'')"
    by code_simp
  with warp_grid_explicit_points_fails [of "full_tensor [3, 2] 1 CPU" 2 "eye_batch 1 CPU" 1 1 2]
  show ?thesis by (simp add: eye_batch_def full_tensor_def)
qed




lemma expand_no_TypeError: "expand t sz \<noteq> Inl (TypeError m)"
  by (simp add: expand_def Let_def)

lemma transform_points_no_TypeError: "transform_points H p \<noteq> Inl (TypeError m)"
  by (simp add: transform_points_def Let_def split: option.splits)

lemma view_no_TypeError: "view t sz \<noteq> Inl (TypeError m)"
  by (simp add: view_def Let_def)

lemma warp_grid_no_TypeError: "warp_grid self H \<noteq> Inl (TypeError m)"
proof (cases "shape H")
  case Nil
  then show ?thesis by (simp add: warp_grid_def warp_grid_st_def)
next
  case (Cons b bs)
  then show ?thesis
    using expand_no_TypeError transform_points_no_TypeError view_no_TypeError
    by (auto simp add: warp_grid_def warp_grid_st_def and_then_def split: sum.splits)
qed

lemma grid_sample_ref_no_TypeError: "grid_sample_ref img g mode padding_mode \<noteq> Inl (TypeError m)"
  by (simp add: grid_sample_ref_def Let_def)

text \<open>The warper for a \<open>1 \<times> 1\<close> image.\<close>

lemma HomographyWarper_init_1_1:
  "HomographyWarper_init 1 1 None
     = Inr \<lparr>height = 1, width = 1, grid = full_tensor [1, 1, 2] (- 1) CPU\<rparr>"
  by code_simp

text \<open>
  C6. If the patch and the homography batch are on different devices, \<open>forward\<close> fails
  with the \<^verbatim>\<open>TypeError\<close> whose message names both devices, the patch's first. If they are
  on the same device the check passes and \<open>forward\<close> is \<open>warp_grid\<close> followed by the
  resampling primitive: it raises no \<^verbatim>\<open>TypeError\<close> unless the primitive does.
\<close>

theorem forward_device_mismatch:
  "(dev dst_homo_src \<noteq> dev patch \<longrightarrow>
      forward gs self patch dst_homo_src padding_mode
        = Inl (TypeError (device_mismatch_message (dev patch) (dev dst_homo_src)))
      \<and> (\<exists>pre mid post. device_mismatch_message (dev patch) (dev dst_homo_src)
            = pre @ device_str (dev patch) @ mid @ device_str (dev dst_homo_src) @ post))
   \<and> (dev dst_homo_src = dev patch \<longrightarrow>
      forward gs self patch dst_homo_src padding_mode
        = and_then (warp_grid self dst_homo_src) (\<lambda>g. gs patch g ''bilinear'' padding_mode)
      \<and> ((\<forall>g m. gs patch g ''bilinear'' padding_mode \<noteq> Inl (TypeError m)) \<longrightarrow>
           (\<forall>m. forward gs self patch dst_homo_src padding_mode \<noteq> Inl (TypeError m))))"
proof (intro conjI impI)
  assume "dev dst_homo_src \<noteq> dev patch"
  then show "forward gs self patch dst_homo_src padding_mode
        = Inl (TypeError (device_mismatch_message (dev patch) (dev dst_homo_src)))"
    by (simp add: forward_def)
next
  show "\<exists>pre mid post. device_mismatch_message (dev patch) (dev dst_homo_src)
            = pre @ device_str (dev patch) @ mid @ device_str (dev dst_homo_src) @ post"
    unfolding device_mismatch_message_def
    by (intro exI [of _ "''.''"] exI [of _ "'' dst_H_src.device: ''"]
        exI [of _ "''Patch and homography must be on the same device. '' @ replicate 28 (CHR '' '') @ ''Got patch.device: ''"])
       simp
next
  assume same: "dev dst_homo_src = dev patch"
  then show eq: "forward gs self patch dst_homo_src padding_mode
        = and_then (warp_grid self dst_homo_src) (\<lambda>g. gs patch g ''bilinear'' padding_mode)"
    by (simp add: forward_def)
  assume gs: "\<forall>g m. gs patch g ''bilinear'' padding_mode \<noteq> Inl (TypeError m)"
  show "\<forall>m. forward gs self patch dst_homo_src padding_mode \<noteq> Inl (TypeError m)"
    unfolding eq using gs warp_grid_no_TypeError [of self dst_homo_src]
    by (auto simp add: and_then_def split: sum.splits)
qed

theorem forward_device_mismatch_witness:
  "forward grid_sample_ref \<lparr>height = 1, width = 1, grid = full_tensor [1, 1, 2] (- 1) CPU\<rparr>
       (full_tensor [1, 1, 2, 2] 7 (CUDA 1)) (eye_batch 1 CPU) ''zeros''
     = Inl (TypeError
         ''Patch and homography must be on the same device.                             Got patch.device: cuda:1 dst_H_src.device: cpu.'')
   \<and> (\<exists>pre mid post.
         ''Patch and homography must be on the same device.                             Got patch.device: cuda:1 dst_H_src.device: cpu.''
            = pre @ ''cuda:1'' @ mid @ ''cpu'' @ post)
   \<and> (\<forall>m. forward grid_sample_ref \<lparr>height = 1, width = 1, grid = full_tensor [1, 1, 2] (- 1) CPU\<rparr>
       (full_tensor [1, 1, 2, 2] 7 CPU) (eye_batch 1 CPU) ''zeros'' \<noteq> Inl (TypeError m))"
proof -
  have m: "device_mismatch_message (CUDA 1) CPU
    = ''Patch and homography must be on the same device.                             Got patch.device: cuda:1 dst_H_src.device: cpu.''"
    by (simp add: device_mismatch_message_def device_str_def digit_char_def numeral_eq_Suc)
  have d: "device_str (CUDA 1) = ''cuda:1''" "device_str CPU = ''cpu''"
    by (simp_all add: device_str_def digit_char_def)
  from forward_device_mismatch [of "eye_batch 1 CPU" "full_tensor [1, 1, 2, 2] 7 (CUDA 1)"
      grid_sample_ref "\<lparr>height = 1, width = 1, grid = full_tensor [1, 1, 2] (- 1) CPU\<rparr>" "''zeros''"]
  have a: "forward grid_sample_ref \<lparr>height = 1, width = 1, grid = full_tensor [1, 1, 2] (- 1) CPU\<rparr>
       (full_tensor [1, 1, 2, 2] 7 (CUDA 1)) (eye_batch 1 CPU) ''zeros''
     = Inl (TypeError
         ''Patch and homography must be on the same device.                             Got patch.device: cuda:1 dst_H_src.device: cpu.'')
   \<and> (\<exists>pre mid post.
         ''Patch and homography must be on the same device.                             Got patch.device: cuda:1 dst_H_src.device: cpu.''
            = pre @ ''cuda:1'' @ mid @ ''cpu'' @ post)"
    unfolding m [symmetric] d [symmetric] by (simp add: eye_batch_def full_tensor_def)
  have s: "dev (eye_batch 1 CPU) = dev (full_tensor [1, 1, 2, 2] 7 CPU)"
    by (simp add: eye_batch_def full_tensor_def)
  have n: "\<forall>g m. grid_sample_ref (full_tensor [1, 1, 2, 2] 7 CPU) g ''bilinear'' ''zeros''
             \<noteq> Inl (TypeError m)"
    using grid_sample_ref_no_TypeError by blast
  from forward_device_mismatch [of "eye_batch 1 CPU" "full_tensor [1, 1, 2, 2] 7 CPU"
      grid_sample_ref "\<lparr>height = 1, width = 1, grid = full_tensor [1, 1, 2] (- 1) CPU\<rparr>" "''zeros''"]
    s n
  have b: "\<forall>m. forward grid_sample_ref \<lparr>height = 1, width = 1, grid = full_tensor [1, 1, 2] (- 1) CPU\<rparr>
       (full_tensor [1, 1, 2, 2] 7 CPU) (eye_batch 1 CPU) ''zeros'' \<noteq> Inl (TypeError m)"
    by blast
  from a b show ?thesis by blast
qed

text \<open>
  C7. The functional entry point \<open>homography_warp\<close> returns exactly the result of
  constructing a warper from the height and width of \<open>dsize\<close> and the optional points, and
  calling its \<open>forward\<close> with the same patch, homographies and padding mode; an error of the
  constructor is the result.
\<close>

theorem homography_warp_is_init_then_forward:
  "homography_warp gs patch H dsize points padding_mode
     = homography_warp_spec gs patch H dsize points padding_mode"
  by (cases dsize) (simp add: homography_warp_def homography_warp_spec_def and_then_def)

section \<open>The region of interest\<close>




text \<open>
  C4. Claimed: \<open>crop_and_warp\<close> remaps the warped grid as \<open>grid * a + b\<close> and resamples
  the whole image at the result. On a \<open>2 \<times> 2\<close> warper, one identity homography, a
  \<open>1 \<times> 1 \<times> 2 \<times> 2\<close> image and the region \<open>(0, 2, 0, 2)\<close> the call raises the \<^verbatim>\<open>NameError\<close>
  of line 97 and resamples nothing.
\<close>

theorem crop_and_warp_raises_name_error:
  "and_then (HomographyWarper_init 2 2 None) (\<lambda>self.
     crop_and_warp grid_sample_ref self (eye_batch 1 CPU)
       \<lparr>shape = [1, 1, 2, 2], elems = [1, 2, 3, 4], dev = CPU\<rparr> (0, 2, 0, 2) ''zeros'')
   = Inl (NameError (''name '' @ [CHR 0x27] @ ''Variable'' @ [CHR 0x27] @ '' is not defined''))"
  by code_simp




end
